theory Spec2Isabelle
  imports Complex_Main
begin

section \<open>Python values of the property package\<close>

text \<open>
  The module \<^verbatim>\<open>BTHM_ideal.py\<close> consists of one dictionary literal,
  \<^verbatim>\<open>configuration\<close>. Its leaves are numbers, unit expressions built from
  \<^verbatim>\<open>pyomo.environ.units\<close>, \<^verbatim>\<open>None\<close>, and objects imported from the
  IDAES framework; its inner nodes are dictionaries, tuples and one list.
\<close>

text \<open>
  A unit expression, kept as the source writes it: \<^verbatim>\<open>pyunits.kg\<close> is
  \<open>pyunits ''kg''\<close>, and \<^verbatim>\<open>*\<close>, \<^verbatim>\<open>/\<close>, \<^verbatim>\<open>**\<close> are the three operators
  (\<^verbatim>\<open>/\<close> and \<^verbatim>\<open>*\<close> associate to the left, \<^verbatim>\<open>**\<close> binds tighter).
\<close>

datatype unit =
    pyunits string
  | UMul unit unit
  | UDiv unit unit
  | UPow unit int

text \<open>The names the module imports and stores in the dictionary as objects.\<close>

datatype extern =
    Component
  | LiquidPhase
  | VaporPhase
  | PT_liquidPhase
  | PT_vaporPhase
  | FpcTP
  | Ideal
  | smooth_VLE
  | IdealBubbleDew
  | fugacity
  | Perrys
  | RPP
  | NIST

text \<open>
  A float literal is kept as the decimal number it denotes. Python reads the literal as
  the binary64 value nearest to that number, which is a monotone function of it: equal
  decimals give equal floats, and \<open>\<le>\<close> between decimals carries over to the floats.
  Integer literals stay integers, as in Python.
\<close>

datatype pyval =
    PNone
  | PInt int
  | PFloat real
  | PStr string
  | PUnit unit
  | PObj extern
  | PTuple "pyval list"
  | PList "pyval list"
  | PDict "(pyval \<times> pyval) list"

text \<open>The literal \<^verbatim>\<open>mEe\<close> of scientific notation: \<open>m\<close> times ten to the \<open>e\<close>.\<close>

definition float_lit :: "real \<Rightarrow> int \<Rightarrow> real" where
  "float_lit m e = (if 0 \<le> e then m * 10 ^ nat e else m / 10 ^ nat (- e))"

datatype py_error = KeyError | IndexError | TypeError

text \<open>
  Indexing a tuple or a list: a negative index counts from the end, an index out of
  range raises \<^verbatim>\<open>IndexError\<close>.
\<close>

definition seq_getitem :: "pyval list \<Rightarrow> int \<Rightarrow> py_error + pyval" where
  "seq_getitem xs i =
     (let n = int (length xs); j = (if i < 0 then i + n else i)
      in if j < 0 \<or> n \<le> j then Inl IndexError else Inr (xs ! nat j))"

text \<open>
  The subscript \<^verbatim>\<open>d[k]\<close>. A dictionary display is evaluated left to right and a later
  entry replaces an earlier one with the same key, so the pairs are searched from the
  end. A missing key raises \<^verbatim>\<open>KeyError\<close>. (The keys of this module are strings and
  tuples of strings, which are equal as keys exactly when they are equal as values.)
\<close>

fun getitem :: "pyval \<Rightarrow> pyval \<Rightarrow> py_error + pyval" where
  "getitem (PDict kvs) k =
     (case map_of (rev kvs) k of None \<Rightarrow> Inl KeyError | Some v \<Rightarrow> Inr v)"
| "getitem (PTuple xs) (PInt i) = seq_getitem xs i"
| "getitem (PList xs) (PInt i) = seq_getitem xs i"
| "getitem _ _ = Inl TypeError"

text \<open>A chain of subscripts \<^verbatim>\<open>d[k1][k2]...\<close>, stopping at the first exception.\<close>

fun getpath :: "pyval \<Rightarrow> pyval list \<Rightarrow> py_error + pyval" where
  "getpath d [] = Inr d"
| "getpath d (k # ks) =
     (case getitem d k of Inl e \<Rightarrow> Inl e | Inr v \<Rightarrow> getpath v ks)"

text \<open>\<^verbatim>\<open>list(d.keys())\<close>, \<^verbatim>\<open>list(d.items())\<close> and \<^verbatim>\<open>k in d\<close> for a dictionary display.\<close>

fun keys :: "pyval \<Rightarrow> pyval list" where
  "keys (PDict kvs) = remdups (map fst kvs)"
| "keys _ = []"

fun items :: "pyval \<Rightarrow> (pyval \<times> pyval) list" where
  "items (PDict kvs) = map (\<lambda>k. (k, the (map_of (rev kvs) k))) (remdups (map fst kvs))"
| "items _ = []"

fun contains :: "pyval \<Rightarrow> pyval \<Rightarrow> bool" where
  "contains (PDict kvs) k = (k \<in> set (map fst kvs))"
| "contains _ _ = False"

section \<open>The configuration dictionary\<close>

text \<open>
  The literal of the source, entry by entry and in the source's order. The four species
  entries are named constants here only to keep the terms small; \<open>configuration\<close>
  puts them together as the source does.
\<close>

definition benzene :: pyval where
  "benzene = PDict [
     (PStr ''type'', PObj Component),
     (PStr ''dens_mol_liq_comp'', PObj Perrys),
     (PStr ''enth_mol_liq_comp'', PObj Perrys),
     (PStr ''enth_mol_ig_comp'', PObj RPP),
     (PStr ''pressure_sat_comp'', PObj NIST),
     (PStr ''phase_equilibrium_form'',
        PDict [(PTuple [PStr ''Vap'', PStr ''Liq''], PObj fugacity)]),
     (PStr ''parameter_data'', PDict [
        (PStr ''mw'', PTuple [PFloat (float_lit 78.1136 (-3)),
           PUnit (UDiv (pyunits ''kg'') (pyunits ''mol''))]),
        (PStr ''pressure_crit'', PTuple [PFloat (float_lit 48.9 5), PUnit (pyunits ''Pa'')]),
        (PStr ''temperature_crit'', PTuple [PFloat 562.2, PUnit (pyunits ''K'')]),
        (PStr ''dens_mol_liq_comp_coeff'', PDict [
           (PStr ''1'', PTuple [PFloat 1.0162,
              PUnit (UMul (pyunits ''kmol'') (UPow (pyunits ''m'') (-3)))]),
           (PStr ''2'', PTuple [PFloat 0.2655, PNone]),
           (PStr ''3'', PTuple [PFloat 562.16, PUnit (pyunits ''K'')]),
           (PStr ''4'', PTuple [PFloat 0.28212, PNone])]),
        (PStr ''cp_mol_ig_comp_coeff'', PDict [
           (PStr ''A'', PTuple [PFloat (float_lit (-3.392) 1),
              PUnit (UDiv (UDiv (pyunits ''J'') (pyunits ''mol'')) (pyunits ''K''))]),
           (PStr ''B'', PTuple [PFloat (float_lit 4.739 (-1)),
              PUnit (UDiv (UDiv (pyunits ''J'') (pyunits ''mol'')) (UPow (pyunits ''K'') 2))]),
           (PStr ''C'', PTuple [PFloat (float_lit (-3.017) (-4)),
              PUnit (UDiv (UDiv (pyunits ''J'') (pyunits ''mol'')) (UPow (pyunits ''K'') 3))]),
           (PStr ''D'', PTuple [PFloat (float_lit 7.130 (-8)),
              PUnit (UDiv (UDiv (pyunits ''J'') (pyunits ''mol'')) (UPow (pyunits ''K'') 4))])]),
        (PStr ''cp_mol_liq_comp_coeff'', PDict [
           (PStr ''1'', PTuple [PFloat (float_lit 1.29 5),
              PUnit (UMul (UMul (pyunits ''J'') (UPow (pyunits ''kmol'') (-1)))
                          (UPow (pyunits ''K'') (-1)))]),
           (PStr ''2'', PTuple [PFloat (float_lit (-1.7) 2),
              PUnit (UMul (UMul (pyunits ''J'') (UPow (pyunits ''kmol'') (-1)))
                          (UPow (pyunits ''K'') (-2)))]),
           (PStr ''3'', PTuple [PFloat (float_lit 6.48 (-1)),
              PUnit (UMul (UMul (pyunits ''J'') (UPow (pyunits ''kmol'') (-1)))
                          (UPow (pyunits ''K'') (-3)))]),
           (PStr ''4'', PTuple [PInt 0,
              PUnit (UMul (UMul (pyunits ''J'') (UPow (pyunits ''kmol'') (-1)))
                          (UPow (pyunits ''K'') (-4)))]),
           (PStr ''5'', PTuple [PInt 0,
              PUnit (UMul (UMul (pyunits ''J'') (UPow (pyunits ''kmol'') (-1)))
                          (UPow (pyunits ''K'') (-5)))])]),
        (PStr ''enth_mol_form_liq_comp_ref'', PTuple [PFloat (float_lit (-49.0) 3),
           PUnit (UDiv (pyunits ''J'') (pyunits ''mol''))]),
        (PStr ''enth_mol_form_vap_comp_ref'', PTuple [PFloat (float_lit (-82.9) 3),
           PUnit (UDiv (pyunits ''J'') (pyunits ''mol''))]),
        (PStr ''pressure_sat_comp_coeff'', PDict [
           (PStr ''A'', PTuple [PFloat 4.60362, PNone]),
           (PStr ''B'', PTuple [PFloat 1701.073, PUnit (pyunits ''K'')]),
           (PStr ''C'', PTuple [PFloat 20.806, PUnit (pyunits ''K'')])])])]"

definition toluene :: pyval where
  "toluene = PDict [
     (PStr ''type'', PObj Component),
     (PStr ''dens_mol_liq_comp'', PObj Perrys),
     (PStr ''enth_mol_liq_comp'', PObj Perrys),
     (PStr ''enth_mol_ig_comp'', PObj RPP),
     (PStr ''pressure_sat_comp'', PObj NIST),
     (PStr ''phase_equilibrium_form'',
        PDict [(PTuple [PStr ''Vap'', PStr ''Liq''], PObj fugacity)]),
     (PStr ''parameter_data'', PDict [
        (PStr ''mw'', PTuple [PFloat (float_lit 92.1405 (-3)),
           PUnit (UDiv (pyunits ''kg'') (pyunits ''mol''))]),
        (PStr ''pressure_crit'', PTuple [PFloat (float_lit 41 5), PUnit (pyunits ''Pa'')]),
        (PStr ''temperature_crit'', PTuple [PFloat 591.8, PUnit (pyunits ''K'')]),
        (PStr ''dens_mol_liq_comp_coeff'', PDict [
           (PStr ''1'', PTuple [PFloat 0.8488,
              PUnit (UMul (pyunits ''kmol'') (UPow (pyunits ''m'') (-3)))]),
           (PStr ''2'', PTuple [PFloat 0.26655, PNone]),
           (PStr ''3'', PTuple [PFloat 591.8, PUnit (pyunits ''K'')]),
           (PStr ''4'', PTuple [PFloat 0.2878, PNone])]),
        (PStr ''cp_mol_ig_comp_coeff'', PDict [
           (PStr ''A'', PTuple [PFloat (float_lit (-2.435) 1),
              PUnit (UDiv (UDiv (pyunits ''J'') (pyunits ''mol'')) (pyunits ''K''))]),
           (PStr ''B'', PTuple [PFloat (float_lit 5.125 (-1)),
              PUnit (UDiv (UDiv (pyunits ''J'') (pyunits ''mol'')) (UPow (pyunits ''K'') 2))]),
           (PStr ''C'', PTuple [PFloat (float_lit (-2.765) (-4)),
              PUnit (UDiv (UDiv (pyunits ''J'') (pyunits ''mol'')) (UPow (pyunits ''K'') 3))]),
           (PStr ''D'', PTuple [PFloat (float_lit 4.911 (-8)),
              PUnit (UDiv (UDiv (pyunits ''J'') (pyunits ''mol'')) (UPow (pyunits ''K'') 4))])]),
        (PStr ''cp_mol_liq_comp_coeff'', PDict [
           (PStr ''1'', PTuple [PFloat (float_lit 1.40 5),
              PUnit (UMul (UMul (pyunits ''J'') (UPow (pyunits ''kmol'') (-1)))
                          (UPow (pyunits ''K'') (-1)))]),
           (PStr ''2'', PTuple [PFloat (-1.522),
              PUnit (UMul (UMul (pyunits ''J'') (UPow (pyunits ''kmol'') (-1)))
                          (UPow (pyunits ''K'') (-2)))]),
           (PStr ''3'', PTuple [PFloat (float_lit 6.95 (-1)),
              PUnit (UMul (UMul (pyunits ''J'') (UPow (pyunits ''kmol'') (-1)))
                          (UPow (pyunits ''K'') (-3)))]),
           (PStr ''4'', PTuple [PInt 0,
              PUnit (UMul (UMul (pyunits ''J'') (UPow (pyunits ''kmol'') (-1)))
                          (UPow (pyunits ''K'') (-4)))]),
           (PStr ''5'', PTuple [PInt 0,
              PUnit (UMul (UMul (pyunits ''J'') (UPow (pyunits ''kmol'') (-1)))
                          (UPow (pyunits ''K'') (-5)))])]),
        (PStr ''enth_mol_form_liq_comp_ref'', PTuple [PFloat (float_lit (-12.0) 3),
           PUnit (UDiv (pyunits ''J'') (pyunits ''mol''))]),
        (PStr ''enth_mol_form_vap_comp_ref'', PTuple [PFloat (float_lit (-50.1) 3),
           PUnit (UDiv (pyunits ''J'') (pyunits ''mol''))]),
        (PStr ''pressure_sat_comp_coeff'', PDict [
           (PStr ''A'', PTuple [PFloat 4.54436, PNone]),
           (PStr ''B'', PTuple [PFloat 1738.123, PUnit (pyunits ''K'')]),
           (PStr ''C'', PTuple [PFloat 0.394, PUnit (pyunits ''K'')])])])]"

definition hydrogen :: pyval where
  "hydrogen = PDict [
     (PStr ''type'', PObj Component),
     (PStr ''valid_phase_types'', PObj PT_vaporPhase),
     (PStr ''enth_mol_ig_comp'', PObj RPP),
     (PStr ''parameter_data'', PDict [
        (PStr ''mw'', PTuple [PFloat (float_lit 2.016 (-3)),
           PUnit (UDiv (pyunits ''kg'') (pyunits ''mol''))]),
        (PStr ''pressure_crit'', PTuple [PFloat (float_lit 12.9 5), PUnit (pyunits ''Pa'')]),
        (PStr ''temperature_crit'', PTuple [PFloat 33.0, PUnit (pyunits ''K'')]),
        (PStr ''cp_mol_ig_comp_coeff'', PDict [
           (PStr ''A'', PTuple [PFloat (float_lit 2.714 1),
              PUnit (UDiv (UDiv (pyunits ''J'') (pyunits ''mol'')) (pyunits ''K''))]),
           (PStr ''B'', PTuple [PFloat (float_lit 9.274 (-3)),
              PUnit (UDiv (UDiv (pyunits ''J'') (pyunits ''mol'')) (UPow (pyunits ''K'') 2))]),
           (PStr ''C'', PTuple [PFloat (float_lit (-1.381) (-5)),
              PUnit (UDiv (UDiv (pyunits ''J'') (pyunits ''mol'')) (UPow (pyunits ''K'') 3))]),
           (PStr ''D'', PTuple [PFloat (float_lit 7.645 (-9)),
              PUnit (UDiv (UDiv (pyunits ''J'') (pyunits ''mol'')) (UPow (pyunits ''K'') 4))])]),
        (PStr ''enth_mol_form_vap_comp_ref'', PTuple [PInt 0,
           PUnit (UDiv (pyunits ''J'') (pyunits ''mol''))])])]"

definition methane :: pyval where
  "methane = PDict [
     (PStr ''type'', PObj Component),
     (PStr ''valid_phase_types'', PObj PT_vaporPhase),
     (PStr ''enth_mol_ig_comp'', PObj RPP),
     (PStr ''parameter_data'', PDict [
        (PStr ''mw'', PTuple [PFloat (float_lit 16.043 (-3)),
           PUnit (UDiv (pyunits ''kg'') (pyunits ''mol''))]),
        (PStr ''pressure_crit'', PTuple [PFloat (float_lit 46 5), PUnit (pyunits ''Pa'')]),
        (PStr ''temperature_crit'', PTuple [PFloat 190.4, PUnit (pyunits ''K'')]),
        (PStr ''cp_mol_ig_comp_coeff'', PDict [
           (PStr ''A'', PTuple [PFloat (float_lit 1.925 1),
              PUnit (UDiv (UDiv (pyunits ''J'') (pyunits ''mol'')) (pyunits ''K''))]),
           (PStr ''B'', PTuple [PFloat (float_lit 5.213 (-2)),
              PUnit (UDiv (UDiv (pyunits ''J'') (pyunits ''mol'')) (UPow (pyunits ''K'') 2))]),
           (PStr ''C'', PTuple [PFloat (float_lit 1.197 (-5)),
              PUnit (UDiv (UDiv (pyunits ''J'') (pyunits ''mol'')) (UPow (pyunits ''K'') 3))]),
           (PStr ''D'', PTuple [PFloat (float_lit (-1.132) (-8)),
              PUnit (UDiv (UDiv (pyunits ''J'') (pyunits ''mol'')) (UPow (pyunits ''K'') 4))])]),
        (PStr ''enth_mol_form_vap_comp_ref'', PTuple [PFloat (float_lit (-75) 3),
           PUnit (UDiv (pyunits ''J'') (pyunits ''mol''))])])]"

definition configuration :: pyval where
  "configuration = PDict [
     (PStr ''components'', PDict [
        (PStr ''benzene'', benzene),
        (PStr ''toluene'', toluene),
        (PStr ''hydrogen'', hydrogen),
        (PStr ''methane'', methane)]),
     (PStr ''phases'', PDict [
        (PStr ''Liq'', PDict [(PStr ''type'', PObj LiquidPhase),
                              (PStr ''equation_of_state'', PObj Ideal)]),
        (PStr ''Vap'', PDict [(PStr ''type'', PObj VaporPhase),
                              (PStr ''equation_of_state'', PObj Ideal)])]),
     (PStr ''base_units'', PDict [
        (PStr ''time'', PUnit (pyunits ''s'')),
        (PStr ''length'', PUnit (pyunits ''m'')),
        (PStr ''mass'', PUnit (pyunits ''kg'')),
        (PStr ''amount'', PUnit (pyunits ''mol'')),
        (PStr ''temperature'', PUnit (pyunits ''K''))]),
     (PStr ''state_definition'', PObj FpcTP),
     (PStr ''state_bounds'', PDict [
        (PStr ''flow_mol_comp'', PTuple [PInt 0, PInt 100, PInt 1000,
           PUnit (UDiv (pyunits ''mol'') (pyunits ''s''))]),
        (PStr ''temperature'', PTuple [PFloat 273.15, PInt 300, PInt 1000,
           PUnit (pyunits ''K'')]),
        (PStr ''pressure'', PTuple [PFloat (float_lit 5 4), PFloat (float_lit 1 5),
           PFloat (float_lit 1 6), PUnit (pyunits ''Pa'')])]),
     (PStr ''pressure_ref'', PTuple [PInt 101325, PUnit (pyunits ''Pa'')]),
     (PStr ''temperature_ref'', PTuple [PInt 300, PUnit (pyunits ''K'')]),
     (PStr ''phases_in_equilibrium'', PList [PTuple [PStr ''Vap'', PStr ''Liq'']]),
     (PStr ''phase_equilibrium_state'',
        PDict [(PTuple [PStr ''Vap'', PStr ''Liq''], PObj smooth_VLE)]),
     (PStr ''bubble_dew_method'', PObj IdealBubbleDew)]"

section \<open>Reading the configuration\<close>

text \<open>
  The entries of \<^verbatim>\<open>configuration['components']\<close>, of \<^verbatim>\<open>configuration['phases']\<close>
  and of \<^verbatim>\<open>configuration['state_bounds']\<close>, as \<^verbatim>\<open>.items()\<close> lists them. A missing
  key gives no entries.
\<close>

definition species :: "pyval \<Rightarrow> (pyval \<times> pyval) list" where
  "species cfg = (case getitem cfg (PStr ''components'') of Inr d \<Rightarrow> items d | Inl e \<Rightarrow> [])"

definition phases :: "pyval \<Rightarrow> (pyval \<times> pyval) list" where
  "phases cfg = (case getitem cfg (PStr ''phases'') of Inr d \<Rightarrow> items d | Inl e \<Rightarrow> [])"

definition state_bounds :: "pyval \<Rightarrow> (pyval \<times> pyval) list" where
  "state_bounds cfg =
     (case getitem cfg (PStr ''state_bounds'') of Inr d \<Rightarrow> items d | Inl e \<Rightarrow> [])"

subsection \<open>Units\<close>

text \<open>
  The exponent a unit expression gives to a named unit: \<^verbatim>\<open>J/mol/K**2\<close> gives \<open>1\<close>
  to \<^verbatim>\<open>J\<close>, \<open>-1\<close> to \<^verbatim>\<open>mol\<close> and \<open>-2\<close> to \<^verbatim>\<open>K\<close>.
\<close>

fun unit_exponent :: "unit \<Rightarrow> string \<Rightarrow> int" where
  "unit_exponent (pyunits n) b = (if n = b then 1 else 0)"
| "unit_exponent (UMul u v) b = unit_exponent u b + unit_exponent v b"
| "unit_exponent (UDiv u v) b = unit_exponent u b - unit_exponent v b"
| "unit_exponent (UPow u k) b = k * unit_exponent u b"

text \<open>The units of the \<^verbatim>\<open>(value, unit)\<close> entries of a coefficient dictionary, in order.\<close>

definition coefficient_units :: "pyval \<Rightarrow> unit list" where
  "coefficient_units d =
     List.map_filter
       (\<lambda>kv. case snd kv of PTuple [v, PUnit u] \<Rightarrow> Some u | _ \<Rightarrow> None)
       (items d)"

subsection \<open>Correlations and their coefficients\<close>

text \<open>The four property keys under which a species entry names a correlation module.\<close>

definition correlation_properties :: "string list" where
  "correlation_properties =
     [''dens_mol_liq_comp'', ''enth_mol_liq_comp'', ''enth_mol_ig_comp'', ''pressure_sat_comp'']"

text \<open>The correlations a species entry declares: property key and module.\<close>

definition declared_correlations :: "pyval \<Rightarrow> (string \<times> extern) list" where
  "declared_correlations sp =
     List.map_filter
       (\<lambda>p. case getitem sp (PStr p) of Inr (PObj m) \<Rightarrow> Some (p, m) | _ \<Rightarrow> None)
       correlation_properties"

definition has_all_correlations :: "pyval \<Rightarrow> bool" where
  "has_all_correlations sp = (map fst (declared_correlations sp) = correlation_properties)"

text \<open>
  Modelled from the spec: the coefficient dictionary and the key set that each
  correlation form reads. The modules \<^verbatim>\<open>Perrys\<close>, \<^verbatim>\<open>RPP\<close> and \<^verbatim>\<open>NIST\<close> belong to
  the external framework and are not part of this repository. The four-term ideal-gas
  heat-capacity polynomial of \<^verbatim>\<open>RPP\<close> reads \<^verbatim>\<open>A\<close> to \<^verbatim>\<open>D\<close>; the liquid density
  of \<^verbatim>\<open>Perrys\<close> reads four coefficients \<^verbatim>\<open>1\<close> to \<^verbatim>\<open>4\<close>, its liquid heat capacity
  five, \<^verbatim>\<open>1\<close> to \<^verbatim>\<open>5\<close>; the saturation pressure of \<^verbatim>\<open>NIST\<close> is the Antoine
  form with \<^verbatim>\<open>A\<close>, \<^verbatim>\<open>B\<close>, \<^verbatim>\<open>C\<close>.
\<close>

definition required_coefficients :: "string \<Rightarrow> extern \<Rightarrow> (string \<times> string list) option" where
  "required_coefficients p m =
     (if p = ''dens_mol_liq_comp'' \<and> m = Perrys
        then Some (''dens_mol_liq_comp_coeff'', [''1'', ''2'', ''3'', ''4''])
      else if p = ''enth_mol_liq_comp'' \<and> m = Perrys
        then Some (''cp_mol_liq_comp_coeff'', [''1'', ''2'', ''3'', ''4'', ''5''])
      else if p = ''enth_mol_ig_comp'' \<and> m = RPP
        then Some (''cp_mol_ig_comp_coeff'', [''A'', ''B'', ''C'', ''D''])
      else if p = ''pressure_sat_comp'' \<and> m = NIST
        then Some (''pressure_sat_comp_coeff'', [''A'', ''B'', ''C''])
      else None)"

text \<open>
  Two key lists hold the same keys when every key of one is in the other.
\<close>

definition same_keys :: "pyval list \<Rightarrow> pyval list \<Rightarrow> bool" where
  "same_keys xs ys = (list_all (\<lambda>x. x \<in> set ys) xs \<and> list_all (\<lambda>y. y \<in> set xs) ys)"

text \<open>
  A species entry supplies what a declared correlation requires when the coefficient
  dictionary is present in \<^verbatim>\<open>parameter_data\<close> and its key set is the required one:
  every supplied key is required and every required key is supplied.
\<close>

definition supplies_required :: "pyval \<Rightarrow> string \<times> extern \<Rightarrow> bool" where
  "supplies_required sp c =
     (case required_coefficients (fst c) (snd c) of
        None \<Rightarrow> False
      | Some (cname, ks) \<Rightarrow>
          (case getpath sp [PStr ''parameter_data'', PStr cname] of
             Inr (PDict kvs) \<Rightarrow> same_keys (keys (PDict kvs)) (map PStr ks)
           | _ \<Rightarrow> False))"

definition coefficients_match :: "pyval \<Rightarrow> bool" where
  "coefficients_match sp = list_all (supplies_required sp) (declared_correlations sp)"

subsection \<open>Phases\<close>

text \<open>
  The pairs of \<^verbatim>\<open>configuration['phases_in_equilibrium']\<close> and the keys of
  \<^verbatim>\<open>configuration['phase_equilibrium_state']\<close>.
\<close>

definition phases_in_equilibrium :: "pyval \<Rightarrow> pyval list" where
  "phases_in_equilibrium cfg =
     (case getitem cfg (PStr ''phases_in_equilibrium'') of Inr (PList ps) \<Rightarrow> ps | _ \<Rightarrow> [])"

definition phase_equilibrium_state :: "pyval \<Rightarrow> pyval list" where
  "phase_equilibrium_state cfg =
     (case getitem cfg (PStr ''phase_equilibrium_state'') of Inr d \<Rightarrow> keys d | Inl e \<Rightarrow> [])"

definition phase_declared :: "pyval \<Rightarrow> pyval \<Rightarrow> bool" where
  "phase_declared cfg p =
     (case getitem cfg (PStr ''phases'') of Inr d \<Rightarrow> contains d p | Inl e \<Rightarrow> False)"

definition pair_declared :: "pyval \<Rightarrow> pyval \<Rightarrow> bool" where
  "pair_declared cfg pr =
     (case pr of
        PTuple [p1, p2] \<Rightarrow> phase_declared cfg p1 \<and> phase_declared cfg p2
      | _ \<Rightarrow> False)"

text \<open>
  Modelled from the spec: the phase category of a phase class. The classes
  \<^verbatim>\<open>LiquidPhase\<close> and \<^verbatim>\<open>VaporPhase\<close> and the enumeration \<^verbatim>\<open>PhaseType\<close> belong to
  the external framework; a phase record has the category liquid or vapor.
\<close>

fun phase_type :: "extern \<Rightarrow> extern option" where
  "phase_type LiquidPhase = Some PT_liquidPhase"
| "phase_type VaporPhase = Some PT_vaporPhase"
| "phase_type _ = None"

text \<open>The names of the declared phases whose class has the given phase type.\<close>

definition phases_of_type :: "pyval \<Rightarrow> pyval \<Rightarrow> pyval list" where
  "phases_of_type cfg pt =
     map fst
       (filter
          (\<lambda>np. case getitem (snd np) (PStr ''type'') of
                   Inr (PObj c) \<Rightarrow> map_option PObj (phase_type c) = Some pt
                 | _ \<Rightarrow> False)
          (phases cfg))"

text \<open>The species entries that have the key \<^verbatim>\<open>valid_phase_types\<close>, with its value.\<close>

definition restricted_species :: "pyval \<Rightarrow> (pyval \<times> pyval) list" where
  "restricted_species cfg =
     List.map_filter
       (\<lambda>ns. case getitem (snd ns) (PStr ''valid_phase_types'') of
                Inr pt \<Rightarrow> Some (fst ns, pt)
              | Inl e \<Rightarrow> None)
       (species cfg)"

text \<open>
  A restriction resolves when some declared phase has the phase type, and every phase
  of that type is a key of the registry.
\<close>

definition restriction_declared :: "pyval \<Rightarrow> pyval \<times> pyval \<Rightarrow> bool" where
  "restriction_declared cfg r =
     (phases_of_type cfg (snd r) \<noteq> [] \<and>
      list_all (phase_declared cfg) (phases_of_type cfg (snd r)))"

subsection \<open>State bounds\<close>

text \<open>
  The number a numeric value stands for. Python compares an integer with a float by
  their exact values.
\<close>

fun num_value :: "pyval \<Rightarrow> real option" where
  "num_value (PInt i) = Some (of_int i)"
| "num_value (PFloat r) = Some r"
| "num_value _ = None"

definition bounds_ordered :: "pyval \<Rightarrow> bool" where
  "bounds_ordered b =
     (case b of
        PTuple [lo, nom, up, PUnit u] \<Rightarrow>
          (case (num_value lo, num_value nom, num_value up) of
             (Some l, Some n, Some h) \<Rightarrow> l \<le> n \<and> n \<le> h
           | _ \<Rightarrow> False)
      | _ \<Rightarrow> False)"

definition lower_positive :: "pyval \<Rightarrow> string \<Rightarrow> bool" where
  "lower_positive cfg var =
     (case getpath cfg [PStr ''state_bounds'', PStr var, PInt 0] of
        Inr lo \<Rightarrow> (case num_value lo of Some l \<Rightarrow> 0 < l | None \<Rightarrow> False)
      | Inl e \<Rightarrow> False)"

section \<open>Properties of the configuration\<close>

lemmas species_defs = benzene_def toluene_def hydrogen_def methane_def

lemmas map_filter_eqs = List.map_filter_simps

text \<open>The comparison of key lists is equality of the key sets.\<close>

lemma same_keys_iff: "same_keys xs ys \<longleftrightarrow> set xs = set ys"
  by (auto simp add: same_keys_def list_all_iff)

lemma species_configuration:
  "species configuration =
     [(PStr ''benzene'', benzene), (PStr ''toluene'', toluene),
      (PStr ''hydrogen'', hydrogen), (PStr ''methane'', methane)]"
  by (simp add: species_def configuration_def)

lemma phases_configuration:
  "phases configuration =
     [(PStr ''Liq'', PDict [(PStr ''type'', PObj LiquidPhase),
                            (PStr ''equation_of_state'', PObj Ideal)]),
      (PStr ''Vap'', PDict [(PStr ''type'', PObj VaporPhase),
                            (PStr ''equation_of_state'', PObj Ideal)])]"
  by (simp add: phases_def configuration_def)

lemma declared_correlations_benzene:
  "declared_correlations benzene =
     [(''dens_mol_liq_comp'', Perrys), (''enth_mol_liq_comp'', Perrys),
      (''enth_mol_ig_comp'', RPP), (''pressure_sat_comp'', NIST)]"
  by (simp add: declared_correlations_def correlation_properties_def benzene_def
        map_filter_eqs)

lemma declared_correlations_toluene:
  "declared_correlations toluene =
     [(''dens_mol_liq_comp'', Perrys), (''enth_mol_liq_comp'', Perrys),
      (''enth_mol_ig_comp'', RPP), (''pressure_sat_comp'', NIST)]"
  by (simp add: declared_correlations_def correlation_properties_def toluene_def
        map_filter_eqs)

lemma declared_correlations_hydrogen:
  "declared_correlations hydrogen = [(''enth_mol_ig_comp'', RPP)]"
  by (simp add: declared_correlations_def correlation_properties_def hydrogen_def
        map_filter_eqs)

lemma declared_correlations_methane:
  "declared_correlations methane = [(''enth_mol_ig_comp'', RPP)]"
  by (simp add: declared_correlations_def correlation_properties_def methane_def
        map_filter_eqs)

lemmas declared_correlations_species =
  declared_correlations_benzene declared_correlations_toluene
  declared_correlations_hydrogen declared_correlations_methane

text \<open>
  The check of the coefficient keys is not satisfied by every entry: an ideal-gas
  polynomial that leaves out \<^verbatim>\<open>D\<close> is rejected.
\<close>

lemma coefficients_match_rejects_omission:
  "\<not> coefficients_match (PDict [
       (PStr ''enth_mol_ig_comp'', PObj RPP),
       (PStr ''parameter_data'', PDict [
          (PStr ''cp_mol_ig_comp_coeff'', PDict [
             (PStr ''A'', PTuple [PInt 1, PNone]),
             (PStr ''B'', PTuple [PInt 1, PNone]),
             (PStr ''C'', PTuple [PInt 1, PNone])])])])"
  by (simp add: coefficients_match_def supplies_required_def required_coefficients_def
        same_keys_def declared_correlations_def correlation_properties_def map_filter_eqs)

subsection \<open>The benzene entry\<close>

text \<open>
  C1: looking up the ideal-gas heat-capacity coefficients of benzene in the
  configuration gives exactly \<open>A = -3.392E1\<close>, \<open>B = 4.739E-1\<close>, \<open>C = -3.017E-4\<close> and
  \<open>D = 7.130E-8\<close>, the n-th of them with the unit J/mol/K^n (the exponents of J, mol
  and K are 1, -1 and -n), and looking up the critical pressure of benzene gives
  exactly 48.9e5 Pa.
\<close>

theorem benzene_cp_ig_and_pressure_crit:
  "getpath configuration [PStr ''components'', PStr ''benzene'', PStr ''parameter_data'',
       PStr ''cp_mol_ig_comp_coeff'']
     = Inr (PDict [
         (PStr ''A'', PTuple [PFloat (float_lit (-3.392) 1),
            PUnit (UDiv (UDiv (pyunits ''J'') (pyunits ''mol'')) (pyunits ''K''))]),
         (PStr ''B'', PTuple [PFloat (float_lit 4.739 (-1)),
            PUnit (UDiv (UDiv (pyunits ''J'') (pyunits ''mol'')) (UPow (pyunits ''K'') 2))]),
         (PStr ''C'', PTuple [PFloat (float_lit (-3.017) (-4)),
            PUnit (UDiv (UDiv (pyunits ''J'') (pyunits ''mol'')) (UPow (pyunits ''K'') 3))]),
         (PStr ''D'', PTuple [PFloat (float_lit 7.130 (-8)),
            PUnit (UDiv (UDiv (pyunits ''J'') (pyunits ''mol'')) (UPow (pyunits ''K'') 4))])])
   \<and> map (\<lambda>u. map (unit_exponent u) [''J'', ''mol'', ''K''])
       (case getpath configuration [PStr ''components'', PStr ''benzene'',
               PStr ''parameter_data'', PStr ''cp_mol_ig_comp_coeff''] of
          Inr d \<Rightarrow> coefficient_units d | Inl e \<Rightarrow> [])
     = [[1, -1, -1], [1, -1, -2], [1, -1, -3], [1, -1, -4]]
   \<and> getpath configuration [PStr ''components'', PStr ''benzene'', PStr ''parameter_data'',
       PStr ''pressure_crit'']
     = Inr (PTuple [PFloat (float_lit 48.9 5), PUnit (pyunits ''Pa'')])"
  by (simp add: configuration_def benzene_def coefficient_units_def map_filter_eqs)

subsection \<open>Coefficient keys\<close>

text \<open>
  C2: for every species entry of the components mapping and every correlation the entry
  declares (benzene and toluene declare the liquid density and liquid heat capacity of
  Perrys, the ideal-gas heat capacity of RPP and the saturation pressure of NIST;
  hydrogen and methane declare the ideal-gas heat capacity of RPP), the key set of the
  coefficient dictionary supplied in \<^verbatim>\<open>parameter_data\<close> equals the key set the
  correlation form requires. The zero-valued coefficients \<^verbatim>\<open>4\<close> and \<^verbatim>\<open>5\<close> of the
  liquid heat capacity are supplied as entries with the value 0.
\<close>

theorem coefficient_keys_match_correlations:
  "map fst (species configuration)
     = [PStr ''benzene'', PStr ''toluene'', PStr ''hydrogen'', PStr ''methane'']
   \<and> map declared_correlations (map snd (species configuration))
     = [[(''dens_mol_liq_comp'', Perrys), (''enth_mol_liq_comp'', Perrys),
         (''enth_mol_ig_comp'', RPP), (''pressure_sat_comp'', NIST)],
        [(''dens_mol_liq_comp'', Perrys), (''enth_mol_liq_comp'', Perrys),
         (''enth_mol_ig_comp'', RPP), (''pressure_sat_comp'', NIST)],
        [(''enth_mol_ig_comp'', RPP)],
        [(''enth_mol_ig_comp'', RPP)]]
   \<and> list_all coefficients_match (map snd (species configuration))
   \<and> map (\<lambda>p. getpath configuration
               [PStr ''components'', PStr (fst p), PStr ''parameter_data'',
                PStr ''cp_mol_liq_comp_coeff'', PStr (snd p), PInt 0])
       [(''benzene'', ''4''), (''benzene'', ''5''), (''toluene'', ''4''), (''toluene'', ''5'')]
     = [Inr (PInt 0), Inr (PInt 0), Inr (PInt 0), Inr (PInt 0)]"
proof -
  have b: "coefficients_match benzene"
    unfolding coefficients_match_def declared_correlations_benzene
    by (simp add: supplies_required_def required_coefficients_def same_keys_def benzene_def)
  have t: "coefficients_match toluene"
    unfolding coefficients_match_def declared_correlations_toluene
    by (simp add: supplies_required_def required_coefficients_def same_keys_def toluene_def)
  have h: "coefficients_match hydrogen"
    unfolding coefficients_match_def declared_correlations_hydrogen
    by (simp add: supplies_required_def required_coefficients_def same_keys_def hydrogen_def)
  have m: "coefficients_match methane"
    unfolding coefficients_match_def declared_correlations_methane
    by (simp add: supplies_required_def required_coefficients_def same_keys_def methane_def)
  have keys_ok: "list_all coefficients_match [benzene, toluene, hydrogen, methane]"
    using b t h m by simp
  have zeros: "map (\<lambda>p. getpath configuration
               [PStr ''components'', PStr (fst p), PStr ''parameter_data'',
                PStr ''cp_mol_liq_comp_coeff'', PStr (snd p), PInt 0])
       [(''benzene'', ''4''), (''benzene'', ''5''), (''toluene'', ''4''), (''toluene'', ''5'')]
     = [Inr (PInt 0), Inr (PInt 0), Inr (PInt 0), Inr (PInt 0)]"
    by (simp add: configuration_def benzene_def toluene_def seq_getitem_def)
  show ?thesis
    using keys_ok zeros
    by (simp add: species_configuration declared_correlations_species)
qed

subsection \<open>Phase references\<close>

text \<open>
  C3: each phase pair listed in \<^verbatim>\<open>phases_in_equilibrium\<close> and each pair that is a key
  of \<^verbatim>\<open>phase_equilibrium_state\<close> (in both cases the one pair Vap, Liq) names two
  phases that are keys of the phases registry, whose keys are Liq and Vap.
\<close>

theorem equilibrium_pairs_reference_declared_phases:
  "phases_in_equilibrium configuration = [PTuple [PStr ''Vap'', PStr ''Liq'']]
   \<and> phase_equilibrium_state configuration = [PTuple [PStr ''Vap'', PStr ''Liq'']]
   \<and> list_all (pair_declared configuration)
       (phases_in_equilibrium configuration @ phase_equilibrium_state configuration)
   \<and> map fst (phases configuration) = [PStr ''Liq'', PStr ''Vap'']"
  by (simp add: phases_in_equilibrium_def phase_equilibrium_state_def pair_declared_def
        phase_declared_def phases_def configuration_def)

text \<open>
  C4: the species entries that restrict their phases through \<^verbatim>\<open>valid_phase_types\<close>
  are hydrogen and methane, both restricted to the vapor phase type; for each of them
  the phases of that type are declared in the phases registry and there is one, namely
  Vap, whose class is the vapor phase class.
\<close>

theorem restricted_species_reference_declared_phases:
  "restricted_species configuration
     = [(PStr ''hydrogen'', PObj PT_vaporPhase), (PStr ''methane'', PObj PT_vaporPhase)]
   \<and> list_all (restriction_declared configuration) (restricted_species configuration)
   \<and> phases_of_type configuration (PObj PT_vaporPhase) = [PStr ''Vap'']
   \<and> phase_declared configuration (PStr ''Vap'')
   \<and> getpath configuration [PStr ''phases'', PStr ''Vap'', PStr ''type'']
     = Inr (PObj VaporPhase)"
proof -
  have r: "restricted_species configuration
     = [(PStr ''hydrogen'', PObj PT_vaporPhase), (PStr ''methane'', PObj PT_vaporPhase)]"
    by (simp add: restricted_species_def species_configuration species_defs map_filter_eqs)
  have p: "phases_of_type configuration (PObj PT_vaporPhase) = [PStr ''Vap'']"
    by (simp add: phases_of_type_def phases_configuration)
  have d: "phase_declared configuration (PStr ''Vap'')"
    by (simp add: phase_declared_def configuration_def)
  have t: "getpath configuration [PStr ''phases'', PStr ''Vap'', PStr ''type'']
     = Inr (PObj VaporPhase)"
    by (simp add: configuration_def)
  show ?thesis
    using d t by (simp add: r p restriction_declared_def)
qed

subsection \<open>Correlation references\<close>

text \<open>
  C5, as stated, fails: the hydrogen entry of the components mapping has no reference
  to a liquid density correlation (nor to a liquid enthalpy or a saturation pressure
  correlation); it declares the ideal-gas enthalpy correlation only.
\<close>

theorem hydrogen_lacks_liquid_correlations:
  "getpath configuration [PStr ''components'', PStr ''hydrogen''] = Inr hydrogen
   \<and> \<not> has_all_correlations hydrogen
   \<and> getpath configuration [PStr ''components'', PStr ''hydrogen'', PStr ''dens_mol_liq_comp'']
     = Inl KeyError"
  by (simp add: configuration_def has_all_correlations_def declared_correlations_hydrogen
        correlation_properties_def)
    (simp add: hydrogen_def)

text \<open>
  C5, amended: every species entry of the components mapping refers to a named
  correlation for the ideal-gas enthalpy. The entries without \<^verbatim>\<open>valid_phase_types\<close>
  (benzene and toluene) refer to named correlations for all four of liquid density,
  liquid enthalpy, ideal-gas enthalpy and saturation pressure; the entries restricted
  to the vapor phase type (hydrogen and methane) refer to the ideal-gas enthalpy
  correlation only.
\<close>

theorem correlations_by_phase_restriction:
  "map (\<lambda>ns. (fst ns, contains (snd ns) (PStr ''valid_phase_types''),
              declared_correlations (snd ns)))
       (species configuration)
     = [(PStr ''benzene'', False,
           [(''dens_mol_liq_comp'', Perrys), (''enth_mol_liq_comp'', Perrys),
            (''enth_mol_ig_comp'', RPP), (''pressure_sat_comp'', NIST)]),
        (PStr ''toluene'', False,
           [(''dens_mol_liq_comp'', Perrys), (''enth_mol_liq_comp'', Perrys),
            (''enth_mol_ig_comp'', RPP), (''pressure_sat_comp'', NIST)]),
        (PStr ''hydrogen'', True, [(''enth_mol_ig_comp'', RPP)]),
        (PStr ''methane'', True, [(''enth_mol_ig_comp'', RPP)])]
   \<and> list_all
       (\<lambda>ns. contains (snd ns) (PStr ''enth_mol_ig_comp'') \<and>
             (if contains (snd ns) (PStr ''valid_phase_types'')
              then map fst (declared_correlations (snd ns)) = [''enth_mol_ig_comp'']
              else has_all_correlations (snd ns)))
       (species configuration)"
proof -
  have restricted:
    "map (\<lambda>sp. contains sp (PStr ''valid_phase_types'')) [benzene, toluene, hydrogen, methane]
       = [False, False, True, True]"
    by (simp add: species_defs)
  have ig:
    "list_all (\<lambda>sp. contains sp (PStr ''enth_mol_ig_comp'')) [benzene, toluene, hydrogen, methane]"
    by (simp add: species_defs)
  show ?thesis
    using restricted ig
    by (simp add: species_configuration declared_correlations_species
          has_all_correlations_def correlation_properties_def)
qed

subsection \<open>Top-level keys\<close>

text \<open>
  C6: the configuration is a dictionary with a top-level key for each of components,
  phases, base units, state definition, state bounds, reference temperature, reference
  pressure and the phases in equilibrium (its keys are these eight,
  \<^verbatim>\<open>phase_equilibrium_state\<close> and \<^verbatim>\<open>bubble_dew_method\<close>).
\<close>

theorem configuration_top_level_keys:
  "list_all (contains configuration)
     [PStr ''components'', PStr ''phases'', PStr ''base_units'', PStr ''state_definition'',
      PStr ''state_bounds'', PStr ''temperature_ref'', PStr ''pressure_ref'',
      PStr ''phases_in_equilibrium'']
   \<and> keys configuration
     = [PStr ''components'', PStr ''phases'', PStr ''base_units'', PStr ''state_definition'',
        PStr ''state_bounds'', PStr ''pressure_ref'', PStr ''temperature_ref'',
        PStr ''phases_in_equilibrium'', PStr ''phase_equilibrium_state'',
        PStr ''bubble_dew_method'']"
  by (simp add: configuration_def)

text \<open>
  C7: the components mapping has entries for exactly the four species benzene, toluene,
  hydrogen and methane: these are its keys, each once, and no other key is in it.
\<close>

theorem components_are_the_four_species:
  "(case getitem configuration (PStr ''components'') of
      Inr d \<Rightarrow> keys d | Inl e \<Rightarrow> [])
     = [PStr ''benzene'', PStr ''toluene'', PStr ''hydrogen'', PStr ''methane'']
   \<and> (case getitem configuration (PStr ''components'') of
        Inr d \<Rightarrow> contains d k | Inl e \<Rightarrow> False)
     = (k \<in> {PStr ''benzene'', PStr ''toluene'', PStr ''hydrogen'', PStr ''methane''})"
  by (auto simp add: configuration_def)

subsection \<open>State bounds\<close>

text \<open>
  C10: the state variables of \<^verbatim>\<open>state_bounds\<close> are \<^verbatim>\<open>flow_mol_comp\<close>,
  \<^verbatim>\<open>temperature\<close> and \<^verbatim>\<open>pressure\<close>; each entry is a 4-tuple of three numbers and a
  unit with lower \<open>\<le>\<close> nominal \<open>\<le>\<close> upper, and the lower bounds of temperature and of
  pressure are strictly positive.
\<close>

theorem state_bounds_ordered:
  "map fst (state_bounds configuration)
     = [PStr ''flow_mol_comp'', PStr ''temperature'', PStr ''pressure'']
   \<and> list_all bounds_ordered (map snd (state_bounds configuration))
   \<and> lower_positive configuration ''temperature''
   \<and> lower_positive configuration ''pressure''"
  by (simp add: state_bounds_def configuration_def bounds_ordered_def lower_positive_def
        seq_getitem_def float_lit_def)

end
